theory Spec2Isabelle
  imports Complex_Main
begin

section \<open>Data model\<close>

text \<open>
  The three Lambda sources (\<^verbatim>\<open>city-processor.ts\<close>, \<^verbatim>\<open>weather-processor.ts\<close> and the
  LLM processor) share the interface \<^verbatim>\<open>ProcessingData\<close>. Strings are ASCII character
  lists. JavaScript numbers of the weather payload are carried, never computed with, and
  are modelled as reals.
\<close>

datatype Status = Pending | WeatherProcessing | LlmProcessing | Completed | Failed

record WeatherData =
  temperature :: real
  humidity :: real
  description :: string
  windSpeed :: real
  pressure :: real
  visibility :: real
  sunrise :: string
  sunset :: string

record ProcessingData =
  cityId :: string
  cityName :: string
  countryCode :: "string option"
  status :: Status
  timestamp :: string
  weatherData :: "WeatherData option"
  llmDescription :: "string option"
  error :: "string option"

text \<open>\<^verbatim>\<open>interface CityRequest\<close>; a property that is absent from the JSON object is \<open>None\<close>.\<close>

record CityRequest =
  rq_cityName :: "string option"
  rq_countryCode :: "string option"

text \<open>
  A JSON text is represented by what \<^verbatim>\<open>JSON.parse\<close> makes of it: \<open>Unparsable\<close> when
  \<^verbatim>\<open>JSON.parse\<close> throws a SyntaxError, \<open>Null\<close> when it returns \<^verbatim>\<open>null\<close>, on which every
  property read throws a TypeError, and \<open>Parsed v\<close> when it returns a value that is read
  through the properties of the TypeScript type the source annotates the result with.
  \<^verbatim>\<open>JSON.stringify d\<close> is then \<open>Parsed d\<close>. The TypeScript annotation is not checked at
  run time: \<open>Parsed\<close> stands for the texts whose properties have the annotated types.
\<close>

datatype 'a json_text = Unparsable | Null | Parsed 'a

text \<open>
  A thrown value. The catch blocks read it with
  \<^verbatim>\<open>error instanceof Error ? error.message : "Unknown error"\<close>.
\<close>

datatype thrown = Error string | NotAnError

definition syntaxError :: thrown where
  "syntaxError = Error ''Unexpected token in JSON''"

definition typeError :: thrown where
  "typeError = Error ''Cannot read properties of null''"

definition errorMessage :: "thrown \<Rightarrow> string" where
  "errorMessage e = (case e of Error m \<Rightarrow> m | NotAnError \<Rightarrow> ''Unknown error'')"

text \<open>The outcome of one awaited call to an external service: it resolves or it throws.\<close>

datatype outcome = Ok | Throws thrown

subsection \<open>The record store, the queues and the notification topic\<close>

text \<open>
  The table \<^verbatim>\<open>city-weather-data\<close> is declared with partition key \<^verbatim>\<open>cityId\<close> and sort key
  \<^verbatim>\<open>timestamp\<close>. A stored item holds the attributes of \<^verbatim>\<open>ProcessingData\<close>; an item created
  by \<^verbatim>\<open>UpdateItem\<close> has the key attributes and the assigned ones only, so \<^verbatim>\<open>cityName\<close> and
  \<^verbatim>\<open>status\<close> are optional in an item.
\<close>

type_synonym key = "string \<times> string"

record item =
  i_cityId :: string
  i_timestamp :: string
  i_cityName :: "string option"
  i_countryCode :: "string option"
  i_status :: "Status option"
  i_weatherData :: "WeatherData option"
  i_llmDescription :: "string option"
  i_error :: "string option"

record SQSRecord =
  receiptHandle :: string
  body :: "ProcessingData json_text"

record notification =
  n_subject :: string
  n_message :: string
  n_cityId :: string
  n_cityName :: string
  n_weatherData :: "WeatherData option"
  n_llmDescription :: "string option"
  n_error :: "string option"
  n_timestamp :: string

text \<open>The external effects that took place, in the order in which they took place.\<close>

datatype effect =
    Stored ProcessingData
  | Updated key
  | SentA ProcessingData
  | SentB ProcessingData
  | Published string
  | DeletedA string
  | DeletedB string

text \<open>
  \<open>queueA\<close> is the queue between intake and enrichment (\<^verbatim>\<open>CITY_QUEUE_URL\<close> for the sender,
  \<^verbatim>\<open>WEATHER_QUEUE_URL\<close> for the consumer), \<open>queueB\<close> the one between enrichment and
  description (\<^verbatim>\<open>LLM_QUEUE_URL\<close>). A message stays in its queue until it is deleted.
\<close>

record world =
  table :: "key \<Rightarrow> item option"
  queueA :: "SQSRecord list"
  queueB :: "SQSRecord list"
  topic :: "notification list"
  trace :: "effect list"

definition empty_world :: world where
  "empty_world = \<lparr>table = Map.empty, queueA = [], queueB = [], topic = [], trace = []\<rparr>"

definition latest :: string where
  "latest = ''latest''"

definition marshall :: "ProcessingData \<Rightarrow> item" where
  "marshall d = \<lparr>i_cityId = cityId d, i_timestamp = timestamp d,
     i_cityName = Some (cityName d), i_countryCode = countryCode d,
     i_status = Some (status d),
     i_weatherData = weatherData d, i_llmDescription = llmDescription d,
     i_error = error d\<rparr>"

text \<open>
  An awaited call either throws, leaving the world as it is, or resolves in a new world.
  \<open>andThen\<close> is the sequencing of awaited calls inside one \<^verbatim>\<open>try\<close> block: the first
  throw ends the block.
\<close>

type_synonym result = "(thrown \<times> world) + world"

definition andThen :: "result \<Rightarrow> (world \<Rightarrow> result) \<Rightarrow> result" where
  "andThen m f = (case m of Inl x \<Rightarrow> Inl x | Inr w \<Rightarrow> f w)"

definition worldOf :: "result \<Rightarrow> world" where
  "worldOf m = (case m of Inl (e, w) \<Rightarrow> w | Inr w \<Rightarrow> w)"

text \<open>
  \<^verbatim>\<open>PutItemCommand\<close>: an unconditional put under the key attributes of the item. The
  outcome stands for the whole awaited expression, \<^verbatim>\<open>marshall\<close> included, which throws on
  a property whose value is \<^verbatim>\<open>undefined\<close>.
\<close>

definition putItem :: "outcome \<Rightarrow> ProcessingData \<Rightarrow> world \<Rightarrow> result" where
  "putItem res d w =
     (case res of
        Throws e \<Rightarrow> Inl (e, w)
      | Ok \<Rightarrow> Inr (w\<lparr>table := (table w)((cityId d, timestamp d) \<mapsto> marshall d),
                      trace := trace w @ [Stored d]\<rparr>))"

text \<open>
  \<^verbatim>\<open>UpdateItemCommand\<close> with an update expression \<^verbatim>\<open>SET a = :a, ...\<close>, given as the list of
  its assignments. The store refuses an update expression that assigns an attribute of
  the primary key (\<^verbatim>\<open>ValidationException\<close>); an accepted update creates the item when
  the key is new and carries out the assignments.
\<close>

datatype assignment = SetStatus Status | SetError string | SetTimestamp string

definition attributeName :: "assignment \<Rightarrow> string" where
  "attributeName a =
     (case a of SetStatus s \<Rightarrow> ''status'' | SetError m \<Rightarrow> ''error''
      | SetTimestamp t \<Rightarrow> ''timestamp'')"

definition keySchema :: "string list" where
  "keySchema = [''cityId'', ''timestamp'']"

definition assign :: "assignment \<Rightarrow> item \<Rightarrow> item" where
  "assign a it =
     (case a of
        SetStatus s \<Rightarrow> it\<lparr>i_status := Some s\<rparr>
      | SetError m \<Rightarrow> it\<lparr>i_error := Some m\<rparr>
      | SetTimestamp t \<Rightarrow> it\<lparr>i_timestamp := t\<rparr>)"

definition updateItem :: "outcome \<Rightarrow> key \<Rightarrow> assignment list \<Rightarrow> world \<Rightarrow> result" where
  "updateItem res k assignments w =
     (case res of
        Throws e \<Rightarrow> Inl (e, w)
      | Ok \<Rightarrow>
          if \<exists>a \<in> set assignments. attributeName a \<in> set keySchema then
            Inl (Error (''One or more parameter values were invalid: '' @
                        ''Cannot update attribute timestamp. This attribute is part of the key''),
                 w)
          else
            let old = (case table w k of
                         None \<Rightarrow> \<lparr>i_cityId = fst k, i_timestamp = snd k, i_cityName = None,
                                   i_countryCode = None, i_status = None, i_weatherData = None,
                                   i_llmDescription = None, i_error = None\<rparr>
                       | Some it \<Rightarrow> it)
            in Inr (w\<lparr>table := (table w)(k \<mapsto> fold assign assignments old),
                      trace := trace w @ [Updated k]\<rparr>))"

text \<open>\<^verbatim>\<open>GetItemCommand\<close>: \<open>result.Item\<close>, or the call throws.\<close>

definition getItem :: "outcome \<Rightarrow> key \<Rightarrow> world \<Rightarrow> thrown + item option" where
  "getItem res k w = (case res of Throws e \<Rightarrow> Inl e | Ok \<Rightarrow> Inr (table w k))"

definition sendMessageA :: "outcome \<Rightarrow> string \<Rightarrow> ProcessingData \<Rightarrow> world \<Rightarrow> result" where
  "sendMessageA res h d w =
     (case res of
        Throws e \<Rightarrow> Inl (e, w)
      | Ok \<Rightarrow> Inr (w\<lparr>queueA := queueA w @ [\<lparr>receiptHandle = h, body = Parsed d\<rparr>],
                      trace := trace w @ [SentA d]\<rparr>))"

definition sendMessageB :: "outcome \<Rightarrow> string \<Rightarrow> ProcessingData \<Rightarrow> world \<Rightarrow> result" where
  "sendMessageB res h d w =
     (case res of
        Throws e \<Rightarrow> Inl (e, w)
      | Ok \<Rightarrow> Inr (w\<lparr>queueB := queueB w @ [\<lparr>receiptHandle = h, body = Parsed d\<rparr>],
                      trace := trace w @ [SentB d]\<rparr>))"

definition publish :: "outcome \<Rightarrow> notification \<Rightarrow> world \<Rightarrow> result" where
  "publish res n w =
     (case res of
        Throws e \<Rightarrow> Inl (e, w)
      | Ok \<Rightarrow> Inr (w\<lparr>topic := topic w @ [n], trace := trace w @ [Published (n_subject n)]\<rparr>))"

text \<open>\<^verbatim>\<open>DeleteMessageCommand\<close>: the message handed out under the receipt handle leaves its queue.\<close>

definition deleteMessageA :: "outcome \<Rightarrow> string \<Rightarrow> world \<Rightarrow> result" where
  "deleteMessageA res h w =
     (case res of
        Throws e \<Rightarrow> Inl (e, w)
      | Ok \<Rightarrow> Inr (w\<lparr>queueA := filter (\<lambda>r. receiptHandle r \<noteq> h) (queueA w),
                      trace := trace w @ [DeletedA h]\<rparr>))"

definition deleteMessageB :: "outcome \<Rightarrow> string \<Rightarrow> world \<Rightarrow> result" where
  "deleteMessageB res h w =
     (case res of
        Throws e \<Rightarrow> Inl (e, w)
      | Ok \<Rightarrow> Inr (w\<lparr>queueB := filter (\<lambda>r. receiptHandle r \<noteq> h) (queueB w),
                      trace := trace w @ [DeletedB h]\<rparr>))"

section \<open>The intake and status handler (city-processor.ts)\<close>

text \<open>
  The JSON bodies of the responses, with their properties in source order:
  \<open>ErrorBody error message timestamp\<close>,
  \<open>RouteNotFoundBody error message timestamp path method\<close>,
  \<open>HealthBody message timestamp status uptime environment\<close>,
  \<open>AcceptedBody message cityId cityName status timestamp statusUrl\<close> and
  \<open>StatusBody cityId cityName status timestamp weatherData llmDescription error\<close>.
\<close>

datatype response_body =
    ErrorBody string string string
  | RouteNotFoundBody string string string string string
  | HealthBody string string string real string
  | AcceptedBody string string string Status string string
  | StatusBody string "string option" "Status option" string "WeatherData option"
      "string option" "string option"

record response =
  statusCode :: nat
  rbody :: response_body

text \<open>\<^verbatim>\<open>createResponse\<close>; the headers are the same constant in every response.\<close>

definition createResponse :: "nat \<Rightarrow> response_body \<Rightarrow> response" where
  "createResponse code b = \<lparr>statusCode = code, rbody = b\<rparr>"

text \<open>
  Decimal rendering of a number in a template literal; \<open>digitChar\<close> is applied to
  numbers below ten only.
\<close>

definition digitChar :: "nat \<Rightarrow> char" where
  "digitChar d = ''0123456789'' ! d"

fun decimal :: "nat \<Rightarrow> string" where
  "decimal n =
     (if n < 10 then [digitChar n] else decimal (n div 10) @ [digitChar (n mod 10)])"

declare decimal.simps [simp del]

text \<open>
  \<^verbatim>\<open>toLowerCase\<close> and, below, the white space of \<^verbatim>\<open>\s\<close>, on ASCII: the identifier of a
  city name with other characters is outside the model.
\<close>

definition lowerChar :: "char \<Rightarrow> char" where
  "lowerChar c =
     (case map_of (zip ''ABCDEFGHIJKLMNOPQRSTUVWXYZ'' ''abcdefghijklmnopqrstuvwxyz'') c of
        Some l \<Rightarrow> l
      | None \<Rightarrow> c)"

definition toLowerCase :: "string \<Rightarrow> string" where
  "toLowerCase s = map lowerChar s"

text \<open>The ASCII characters that \<^verbatim>\<open>\s\<close> matches: tab, LF, VT, FF, CR and space.\<close>

definition isSpace :: "char \<Rightarrow> bool" where
  "isSpace c = (c \<in> set [CHR 0x09, CHR 0x0A, CHR 0x0B, CHR 0x0C, CHR 0x0D, CHR '' ''])"

text \<open>
  \<^verbatim>\<open>replace(/\s+/g, "-")\<close>: every maximal run of white space becomes one hyphen. The flag
  says that the previous character belonged to a run.
\<close>

fun replaceSpaces :: "bool \<Rightarrow> string \<Rightarrow> string" where
  "replaceSpaces inRun [] = []"
| "replaceSpaces inRun (c # cs) =
     (if isSpace c then (if inRun then replaceSpaces True cs else CHR ''-'' # replaceSpaces True cs)
      else c # replaceSpaces False cs)"

definition makeCityId :: "string \<Rightarrow> nat \<Rightarrow> string" where
  "makeCityId name now = replaceSpaces False (toLowerCase name) @ ''-'' @ decimal now"

text \<open>
  What the runtime and the services do during one call of \<^verbatim>\<open>processCityRequest\<close>:
  the value of \<^verbatim>\<open>Date.now()\<close>, the outcome of the three awaited calls, and the receipt
  handle under which the queue will hand the message out.
\<close>

record intake_env =
  date_now :: nat
  put_res :: outcome
  send_res :: outcome
  send_handle :: string
  publish_res :: outcome

definition internalError :: "string \<Rightarrow> string \<Rightarrow> response" where
  "internalError msg ts = createResponse 500 (ErrorBody ''Internal Server Error'' msg ts)"

text \<open>
  \<^verbatim>\<open>processCityRequest\<close>. The body argument is \<open>None\<close> when \<^verbatim>\<open>!body\<close> holds (the event
  has no body, or the empty string). A body that is the JSON text \<^verbatim>\<open>null\<close> passes that
  test; reading \<^verbatim>\<open>requestData.cityName\<close> then throws inside the \<^verbatim>\<open>try\<close>, and the \<^verbatim>\<open>catch\<close>
  answers 500. \<open>put_res\<close> is \<open>Throws\<close> also when \<^verbatim>\<open>marshall\<close> throws, as it does for a
  request without \<^verbatim>\<open>countryCode\<close>.
\<close>

definition processCityRequest ::
  "intake_env \<Rightarrow> CityRequest json_text option \<Rightarrow> string \<Rightarrow> world \<Rightarrow> response \<times> world" where
  "processCityRequest env b ts w =
     (case b of
        None \<Rightarrow> (createResponse 400 (ErrorBody ''Bad Request'' ''Request body is required'' ts), w)
      | Some Unparsable \<Rightarrow> (internalError ''Failed to process city request'' ts, w)
      | Some Null \<Rightarrow> (internalError ''Failed to process city request'' ts, w)
      | Some (Parsed requestData) \<Rightarrow>
          (case rq_cityName requestData of
             None \<Rightarrow> (createResponse 400 (ErrorBody ''Bad Request'' ''cityName is required'' ts), w)
           | Some name \<Rightarrow>
               if name = [] then
                 (createResponse 400 (ErrorBody ''Bad Request'' ''cityName is required'' ts), w)
               else
                 let cid = makeCityId name (date_now env);
                     processingData = \<lparr>cityId = cid, cityName = name,
                       countryCode = rq_countryCode requestData, status = Pending,
                       timestamp = ts, weatherData = None, llmDescription = None,
                       error = None\<rparr>
                 in (case andThen (putItem (put_res env) processingData w) (\<lambda>w1.
                          andThen (sendMessageA (send_res env) (send_handle env) processingData w1)
                            (\<lambda>w2.
                          publish (publish_res env)
                            \<lparr>n_subject = ''City Processing Started'',
                             n_message = ''City processing started'',
                             n_cityId = cid, n_cityName = name,
                             n_weatherData = None, n_llmDescription = None,
                             n_error = None, n_timestamp = ts\<rparr> w2)) of
                       Inl (e, w') \<Rightarrow> (internalError ''Failed to process city request'' ts, w')
                     | Inr w3 \<Rightarrow>
                         (createResponse 202
                            (AcceptedBody ''City processing started'' cid name Pending ts
                               (''/status/'' @ cid)), w3))))"

text \<open>
  \<^verbatim>\<open>getProcessingStatus\<close>: one \<^verbatim>\<open>GetItem\<close> under the key \<^verbatim>\<open>(cityId, "latest")\<close>. \<open>now\<close> is
  the value of \<^verbatim>\<open>new Date().toISOString()\<close> in the 404 and 500 bodies.
\<close>

definition getProcessingStatus :: "outcome \<Rightarrow> string \<Rightarrow> string \<Rightarrow> world \<Rightarrow> response" where
  "getProcessingStatus get_res now cid w =
     (case getItem get_res (cid, latest) w of
        Inl e \<Rightarrow> internalError ''Failed to get processing status'' now
      | Inr None \<Rightarrow>
          createResponse 404
            (ErrorBody ''Not Found'' (''No processing data found for city ID: '' @ cid) now)
      | Inr (Some data) \<Rightarrow>
          createResponse 200
            (StatusBody (i_cityId data) (i_cityName data) (i_status data) (i_timestamp data)
               (i_weatherData data) (i_llmDescription data) (i_error data)))"

text \<open>\<^verbatim>\<open>String.prototype.split\<close> with a one-character separator.\<close>

fun splitOn :: "char \<Rightarrow> string \<Rightarrow> string list" where
  "splitOn c [] = [[]]"
| "splitOn c (x # xs) =
     (if x = c then [] # splitOn c xs
      else (case splitOn c xs of [] \<Rightarrow> [[x]] | y # ys \<Rightarrow> (x # y) # ys))"

definition startsWith :: "string \<Rightarrow> string \<Rightarrow> bool" where
  "startsWith s p = (take (length p) s = p)"

record APIGatewayProxyEvent =
  httpMethod :: string
  path :: string
  ev_body :: "CityRequest json_text option"

text \<open>
  What one invocation of the HTTP handler meets: the handler's \<^verbatim>\<open>timestamp\<close>, the
  environment of the intake, the outcome of the \<^verbatim>\<open>GetItem\<close> call and the time read by
  \<^verbatim>\<open>getProcessingStatus\<close>, \<^verbatim>\<open>process.uptime()\<close> and
  \<^verbatim>\<open>process.env.NODE_ENV || "development"\<close>.
\<close>

record http_env =
  request_time :: string
  intake :: intake_env
  get_res :: outcome
  status_now :: string
  uptime :: real
  node_env :: string

text \<open>
  The routes of \<^verbatim>\<open>handler\<close> in their order. \<^verbatim>\<open>path.split("/")[2]\<close> exists whenever the
  path starts with \<^verbatim>\<open>/status/\<close>; were it \<^verbatim>\<open>undefined\<close>, building the key would throw inside
  \<^verbatim>\<open>getProcessingStatus\<close>, which answers 500. No branch throws, so the outer \<^verbatim>\<open>catch\<close> is
  never entered.
\<close>

definition cityHandler :: "http_env \<Rightarrow> APIGatewayProxyEvent \<Rightarrow> world \<Rightarrow> response \<times> world" where
  "cityHandler env event w =
     (if path event = ''/health'' \<and> httpMethod event = ''GET'' then
        (createResponse 200
           (HealthBody ''Weather Processing Service is healthy'' (request_time env) ''OK''
              (uptime env) (node_env env)), w)
      else if startsWith (path event) ''/status/'' \<and> httpMethod event = ''GET'' then
        (case drop 2 (splitOn CHR ''/'' (path event)) of
           cid # _ \<Rightarrow> (getProcessingStatus (get_res env) (status_now env) cid w, w)
         | [] \<Rightarrow> (internalError ''Failed to get processing status'' (status_now env), w))
      else if path event = ''/cities'' \<and> httpMethod event = ''POST'' then
        processCityRequest (intake env) (ev_body event) (request_time env) w
      else
        (createResponse 404
           (RouteNotFoundBody ''Not Found'' (''Path '' @ path event @ '' not found'')
              (request_time env) (path event) (httpMethod event)), w))"

section \<open>The enrichment stage (weather-processor.ts)\<close>

text \<open>
  What one execution of a queue stage meets, call site by call site in source order:
  the \<^verbatim>\<open>UpdateItem\<close> that marks the stage in progress, the credential, the provider, the
  \<^verbatim>\<open>PutItem\<close>, the hand-over to the next queue, the notification and the deletion of the
  input message; then the three calls of the \<^verbatim>\<open>catch\<close> block. The \<open>..._time\<close> fields are
  the values of \<^verbatim>\<open>new Date().toISOString()\<close> at these places.
\<close>

datatype fetch_outcome = FetchThrows thrown | NotOk nat string | Payload WeatherData

record stage_env =
  status_res :: outcome
  status_time :: string
  apiKey :: "string option"
  provider :: "string \<Rightarrow> string \<Rightarrow> fetch_outcome"
  record_time :: string
  store_res :: outcome
  forward_res :: outcome
  forward_handle :: string
  note_time :: string
  note_res :: outcome
  delete_res :: outcome
  fail_status_res :: outcome
  fail_status_time :: string
  fail_note_res :: outcome
  fail_note_time :: string
  fail_delete_res :: outcome

text \<open>
  \<^verbatim>\<open>updateProcessingStatus\<close>: one \<^verbatim>\<open>UpdateItem\<close> under the key \<^verbatim>\<open>(cityId, "latest")\<close> with
  the expression \<^verbatim>\<open>SET #status = :status, #error = :error, #timestamp = :timestamp\<close> (the
  error only when the string is given and not empty), inside its own \<^verbatim>\<open>try\<close>: a throw is
  logged and the function returns normally.
\<close>

definition updateProcessingStatus ::
  "outcome \<Rightarrow> string \<Rightarrow> string \<Rightarrow> Status \<Rightarrow> string option \<Rightarrow> world \<Rightarrow> world" where
  "updateProcessingStatus res now cid st err w =
     worldOf (updateItem res (cid, latest)
       (SetStatus st #
        (case err of None \<Rightarrow> [] | Some m \<Rightarrow> if m = [] then [] else [SetError m]) @
        [SetTimestamp now]) w)"

text \<open>
  \<^verbatim>\<open>fetchWeatherData\<close>. The provider is asked for \<^verbatim>\<open>cityName\<close> or \<^verbatim>\<open>cityName,countryCode\<close>
  with the key. \<open>FetchThrows\<close> is a throw of \<^verbatim>\<open>fetch\<close>, of \<^verbatim>\<open>response.json()\<close> or of the
  projection of the response body, \<open>NotOk\<close> a response whose \<^verbatim>\<open>ok\<close> is false, \<open>Payload\<close>
  the projected body of an ok response.
\<close>

definition fetchWeatherData :: "stage_env \<Rightarrow> string \<Rightarrow> string option \<Rightarrow> thrown + WeatherData" where
  "fetchWeatherData env name cc =
     (case apiKey env of
        None \<Rightarrow> Inl (Error ''OpenWeather API key not configured'')
      | Some k \<Rightarrow>
          if k = [] then Inl (Error ''OpenWeather API key not configured'')
          else
            let location = (case cc of
                              None \<Rightarrow> name
                            | Some c \<Rightarrow> if c = [] then name else name @ '','' @ c)
            in (case provider env location k of
                  FetchThrows e \<Rightarrow> Inl e
                | NotOk code txt \<Rightarrow>
                    Inl (Error (''Weather API error: '' @ decimal code @ '' '' @ txt))
                | Payload wd \<Rightarrow> Inr wd))"

text \<open>The body of the \<^verbatim>\<open>try\<close> block of \<^verbatim>\<open>processWeatherRecord\<close>.\<close>

definition weatherTry :: "stage_env \<Rightarrow> SQSRecord \<Rightarrow> ProcessingData \<Rightarrow> world \<Rightarrow> result" where
  "weatherTry env record processingData w =
     (let w1 = updateProcessingStatus (status_res env) (status_time env)
                 (cityId processingData) WeatherProcessing None w
      in case fetchWeatherData env (cityName processingData) (countryCode processingData) of
           Inl e \<Rightarrow> Inl (e, w1)
         | Inr wd \<Rightarrow>
             (let updatedData = processingData\<lparr>status := WeatherProcessing,
                    weatherData := Some wd, timestamp := record_time env\<rparr>
              in andThen (putItem (store_res env) updatedData w1) (\<lambda>w2.
                 andThen (sendMessageB (forward_res env) (forward_handle env) updatedData w2)
                   (\<lambda>w3.
                 andThen (publish (note_res env)
                            \<lparr>n_subject = ''Weather Data Retrieved'',
                             n_message = ''Weather data retrieved successfully'',
                             n_cityId = cityId processingData,
                             n_cityName = cityName processingData,
                             n_weatherData = Some wd, n_llmDescription = None,
                             n_error = None, n_timestamp = note_time env\<rparr> w3) (\<lambda>w4.
                 deleteMessageA (delete_res env) (receiptHandle record) w4)))))"

text \<open>The \<^verbatim>\<open>catch\<close> block of \<^verbatim>\<open>processWeatherRecord\<close>, entered with the thrown value.\<close>

definition weatherCatch ::
  "stage_env \<Rightarrow> SQSRecord \<Rightarrow> ProcessingData \<Rightarrow> thrown \<Rightarrow> world \<Rightarrow> result" where
  "weatherCatch env record processingData e w =
     (let w1 = updateProcessingStatus (fail_status_res env) (fail_status_time env)
                 (cityId processingData) Failed (Some (errorMessage e)) w
      in andThen (publish (fail_note_res env)
                    \<lparr>n_subject = ''Weather Processing Failed'',
                     n_message = ''Weather processing failed'',
                     n_cityId = cityId processingData,
                     n_cityName = cityName processingData,
                     n_weatherData = None, n_llmDescription = None,
                     n_error = Some (errorMessage e),
                     n_timestamp = fail_note_time env\<rparr> w1) (\<lambda>w2.
         deleteMessageA (fail_delete_res env) (receiptHandle record) w2))"

text \<open>
  \<^verbatim>\<open>processWeatherRecord\<close>. \<^verbatim>\<open>JSON.parse\<close> stands before the \<^verbatim>\<open>try\<close>: its SyntaxError leaves
  the function at once. A throw inside the \<^verbatim>\<open>catch\<close> block leaves the function too: so
  does the body \<^verbatim>\<open>null\<close>, on which \<^verbatim>\<open>processingData.cityName\<close> throws in the first statement
  of the \<^verbatim>\<open>try\<close> and \<^verbatim>\<open>processingData.cityId\<close> throws in the \<^verbatim>\<open>catch\<close>, before any call.
\<close>

definition processWeatherRecord :: "stage_env \<Rightarrow> SQSRecord \<Rightarrow> world \<Rightarrow> result" where
  "processWeatherRecord env record w =
     (case body record of
        Unparsable \<Rightarrow> Inl (syntaxError, w)
      | Null \<Rightarrow> Inl (typeError, w)
      | Parsed processingData \<Rightarrow>
          (case weatherTry env record processingData w of
             Inr w' \<Rightarrow> Inr w'
           | Inl (e, w') \<Rightarrow> weatherCatch env record processingData e w'))"

text \<open>
  \<^verbatim>\<open>handler\<close> of the weather processor: every record of the event in turn; what
  \<^verbatim>\<open>processWeatherRecord\<close> throws is logged and the loop goes on.
\<close>

fun weatherHandler :: "(stage_env \<times> SQSRecord) list \<Rightarrow> world \<Rightarrow> world" where
  "weatherHandler [] w = w"
| "weatherHandler ((env, record) # rest) w =
     weatherHandler rest (worldOf (processWeatherRecord env record w))"

section \<open>The description stage (LLM processor)\<close>

text \<open>
  \<^verbatim>\<open>generateWeatherDescription\<close> returns in its first statement; the credential check, the
  prompt and the call of the text-generation provider stand after that \<^verbatim>\<open>return\<close> and are
  never executed.
\<close>

definition generateWeatherDescription :: "stage_env \<Rightarrow> ProcessingData \<Rightarrow> thrown + string" where
  "generateWeatherDescription env processingData =
     Inr (''Fake description for '' @ cityName processingData @ [CHR 0x0A])"

definition llmTry :: "stage_env \<Rightarrow> SQSRecord \<Rightarrow> ProcessingData \<Rightarrow> world \<Rightarrow> result" where
  "llmTry env record processingData w =
     (let w1 = updateProcessingStatus (status_res env) (status_time env)
                 (cityId processingData) LlmProcessing None w
      in case generateWeatherDescription env processingData of
           Inl e \<Rightarrow> Inl (e, w1)
         | Inr text \<Rightarrow>
             (let completedData = processingData\<lparr>status := Completed,
                    llmDescription := Some text, timestamp := record_time env\<rparr>
              in andThen (putItem (store_res env) completedData w1) (\<lambda>w2.
                 andThen (publish (note_res env)
                            \<lparr>n_subject = ''Weather Processing Completed'',
                             n_message = ''Weather processing completed successfully'',
                             n_cityId = cityId processingData,
                             n_cityName = cityName processingData,
                             n_weatherData = weatherData processingData,
                             n_llmDescription = Some text,
                             n_error = None, n_timestamp = note_time env\<rparr> w2) (\<lambda>w3.
                 deleteMessageB (delete_res env) (receiptHandle record) w3))))"

definition llmCatch ::
  "stage_env \<Rightarrow> SQSRecord \<Rightarrow> ProcessingData \<Rightarrow> thrown \<Rightarrow> world \<Rightarrow> result" where
  "llmCatch env record processingData e w =
     (let w1 = updateProcessingStatus (fail_status_res env) (fail_status_time env)
                 (cityId processingData) Failed (Some (errorMessage e)) w
      in andThen (publish (fail_note_res env)
                    \<lparr>n_subject = ''LLM Processing Failed'',
                     n_message = ''LLM processing failed'',
                     n_cityId = cityId processingData,
                     n_cityName = cityName processingData,
                     n_weatherData = None, n_llmDescription = None,
                     n_error = Some (errorMessage e),
                     n_timestamp = fail_note_time env\<rparr> w1) (\<lambda>w2.
         deleteMessageB (fail_delete_res env) (receiptHandle record) w2))"

text \<open>\<^verbatim>\<open>processLLMRecord\<close>, with the same three cases of the body.\<close>

definition processLLMRecord :: "stage_env \<Rightarrow> SQSRecord \<Rightarrow> world \<Rightarrow> result" where
  "processLLMRecord env record w =
     (case body record of
        Unparsable \<Rightarrow> Inl (syntaxError, w)
      | Null \<Rightarrow> Inl (typeError, w)
      | Parsed processingData \<Rightarrow>
          (case llmTry env record processingData w of
             Inr w' \<Rightarrow> Inr w'
           | Inl (e, w') \<Rightarrow> llmCatch env record processingData e w'))"

fun llmHandler :: "(stage_env \<times> SQSRecord) list \<Rightarrow> world \<Rightarrow> world" where
  "llmHandler [] w = w"
| "llmHandler ((env, record) # rest) w =
     llmHandler rest (worldOf (processLLMRecord env record w))"

section \<open>The pipeline\<close>

text \<open>
  The worlds the pipeline can reach from the empty one: a request to the HTTP handler, the
  delivery of a message of queue A to the weather processor, the delivery of a message of
  queue B to the LLM processor (the event source mappings of the stack deliver one
  message per invocation, \<^verbatim>\<open>batchSize: 1\<close>). Only the stages write to the queues.
  \<^verbatim>\<open>toISOString\<close> yields a date such as \<^verbatim>\<open>2024-01-01T00:00:00.000Z\<close>, never the word
  \<^verbatim>\<open>latest\<close>.
\<close>

inductive reachable :: "world \<Rightarrow> bool" where
  start: "reachable empty_world"
| request: "reachable w \<Longrightarrow> request_time env \<noteq> latest \<Longrightarrow>
     reachable (snd (cityHandler env event w))"
| enrich: "reachable w \<Longrightarrow> record \<in> set (queueA w) \<Longrightarrow> record_time env \<noteq> latest \<Longrightarrow>
     reachable (weatherHandler [(env, record)] w)"
| describe: "reachable w \<Longrightarrow> record \<in> set (queueB w) \<Longrightarrow> record_time env \<noteq> latest \<Longrightarrow>
     reachable (llmHandler [(env, record)] w)"

section \<open>Outcomes of a stage execution\<close>

text \<open>
  Every call of the \<^verbatim>\<open>try\<close> block of \<^verbatim>\<open>processWeatherRecord\<close> resolves: the provider
  delivers a payload, and the put, the hand-over, the publish and the delete succeed.
  (\<^verbatim>\<open>updateProcessingStatus\<close> never throws.)
\<close>

definition weatherTryOk :: "stage_env \<Rightarrow> ProcessingData \<Rightarrow> bool" where
  "weatherTryOk env pd =
     (case fetchWeatherData env (cityName pd) (countryCode pd) of
        Inl e \<Rightarrow> False
      | Inr wd \<Rightarrow> store_res env = Ok \<and> forward_res env = Ok \<and> note_res env = Ok \<and>
                 delete_res env = Ok)"

text \<open>The same for \<^verbatim>\<open>processLLMRecord\<close>, whose description step cannot throw.\<close>

definition llmTryOk :: "stage_env \<Rightarrow> bool" where
  "llmTryOk env = (store_res env = Ok \<and> note_res env = Ok \<and> delete_res env = Ok)"

section \<open>An invariant of the record store\<close>

text \<open>
  What holds of every item of the table: it stands under a timestamp, not under
  \<^verbatim>\<open>"latest"\<close>, and it has weather data exactly when its status is \<^verbatim>\<open>weather_processing\<close> or
  \<^verbatim>\<open>completed\<close>. Every message of queue B decodes to a job with weather data.
\<close>

definition itemRule :: "string \<Rightarrow> item \<Rightarrow> bool" where
  "itemRule ts it =
     (ts \<noteq> latest \<and>
      (i_weatherData it \<noteq> None \<longleftrightarrow>
         i_status it = Some WeatherProcessing \<or> i_status it = Some Completed))"

definition tableInv :: "world \<Rightarrow> bool" where
  "tableInv w = (\<forall>cid ts it. table w (cid, ts) = Some it \<longrightarrow> itemRule ts it)"

definition queueInv :: "world \<Rightarrow> bool" where
  "queueInv w = (\<forall>m \<in> set (queueB w). \<exists>pd. body m = Parsed pd \<and> weatherData pd \<noteq> None)"

definition weatherInv :: "world \<Rightarrow> bool" where
  "weatherInv w = (tableInv w \<and> queueInv w)"

section \<open>The order of effects\<close>

text \<open>
  In a list of effects, every hand-over of a job to a queue comes after a put of the same
  job record: \<open>seen\<close> holds the records put so far.
\<close>

fun storedFirst :: "ProcessingData list \<Rightarrow> effect list \<Rightarrow> bool" where
  "storedFirst seen [] = True"
| "storedFirst seen (Stored d # es) = storedFirst (d # seen) es"
| "storedFirst seen (SentA d # es) = (d \<in> set seen \<and> storedFirst seen es)"
| "storedFirst seen (SentB d # es) = (d \<in> set seen \<and> storedFirst seen es)"
| "storedFirst seen (e # es) = storedFirst seen es"

text \<open>The effects that hand a job over to a queue.\<close>

fun isSend :: "effect \<Rightarrow> bool" where
  "isSend (SentA d) = True"
| "isSend (SentB d) = True"
| "isSend e = False"

section \<open>Sample inputs\<close>

text \<open>The request of the README and of the specification's scenario, on a calm day.\<close>

definition t0 :: string where
  "t0 = ''2024-01-01T00:00:00.000Z''"

definition t1 :: string where
  "t1 = ''2024-01-01T00:00:05.000Z''"

definition london_request :: CityRequest where
  "london_request = \<lparr>rq_cityName = Some ''London'', rq_countryCode = Some ''GB''\<rparr>"

definition calm_intake :: intake_env where
  "calm_intake = \<lparr>date_now = 1704067200000, put_res = Ok, send_res = Ok,
     send_handle = ''rh-1'', publish_res = Ok\<rparr>"

definition calm_http :: http_env where
  "calm_http = \<lparr>request_time = t0, intake = calm_intake, get_res = Ok, status_now = t1,
     uptime = 3600, node_env = ''development''\<rparr>"

definition post_london :: APIGatewayProxyEvent where
  "post_london =
     \<lparr>httpMethod = ''POST'', path = ''/cities'', ev_body = Some (Parsed london_request)\<rparr>"

definition get_london :: APIGatewayProxyEvent where
  "get_london =
     \<lparr>httpMethod = ''GET'', path = ''/status/london-1704067200000'', ev_body = None\<rparr>"

definition london_pending :: ProcessingData where
  "london_pending = \<lparr>cityId = ''london-1704067200000'', cityName = ''London'',
     countryCode = Some ''GB'', status = Pending, timestamp = t0, weatherData = None,
     llmDescription = None, error = None\<rparr>"

definition started_note :: notification where
  "started_note = \<lparr>n_subject = ''City Processing Started'',
     n_message = ''City processing started'',
     n_cityId = ''london-1704067200000'', n_cityName = ''London'',
     n_weatherData = None, n_llmDescription = None, n_error = None, n_timestamp = t0\<rparr>"

definition msgA :: SQSRecord where
  "msgA = \<lparr>receiptHandle = ''rh-1'', body = Parsed london_pending\<rparr>"

definition after_intake :: world where
  "after_intake = \<lparr>table = [(''london-1704067200000'', t0) \<mapsto> marshall london_pending],
     queueA = [msgA], queueB = [], topic = [started_note],
     trace = [Stored london_pending, SentA london_pending,
              Published ''City Processing Started'']\<rparr>"

text \<open>The weather of the README's example, and a day on which every call succeeds.\<close>

definition sunny :: WeatherData where
  "sunny = \<lparr>temperature = 15.5, humidity = 65, description = ''scattered clouds'',
     windSpeed = 3.2, pressure = 1013, visibility = 10000,
     sunrise = ''2024-01-01T07:15:00.000Z'', sunset = ''2024-01-01T16:45:00.000Z''\<rparr>"

definition calm_stage :: stage_env where
  "calm_stage = \<lparr>status_res = Ok, status_time = t1, apiKey = Some ''owm-key'',
     provider = (\<lambda>location k. Payload sunny), record_time = t1, store_res = Ok,
     forward_res = Ok, forward_handle = ''rh-2'', note_time = t1, note_res = Ok,
     delete_res = Ok, fail_status_res = Ok, fail_status_time = t1, fail_note_res = Ok,
     fail_note_time = t1, fail_delete_res = Ok\<rparr>"

text \<open>The weather provider does not know the city.\<close>

definition city_unknown :: stage_env where
  "city_unknown = calm_stage\<lparr>provider := (\<lambda>location k. NotOk 404 ''Not Found'')\<rparr>"

text \<open>The enriched job, the world after a calm enrichment, and description stages without
  the generation credential and with the topic out of order.\<close>

definition t2 :: string where
  "t2 = ''2024-01-01T00:00:09.000Z''"

definition london_enriched :: ProcessingData where
  "london_enriched = london_pending\<lparr>status := WeatherProcessing, weatherData := Some sunny,
     timestamp := t1\<rparr>"

definition msgB :: SQSRecord where
  "msgB = \<lparr>receiptHandle = ''rh-2'', body = Parsed london_enriched\<rparr>"

definition retrieved_note :: notification where
  "retrieved_note = \<lparr>n_subject = ''Weather Data Retrieved'',
     n_message = ''Weather data retrieved successfully'',
     n_cityId = ''london-1704067200000'', n_cityName = ''London'',
     n_weatherData = Some sunny, n_llmDescription = None, n_error = None,
     n_timestamp = t1\<rparr>"

definition after_enrichment :: world where
  "after_enrichment = \<lparr>table = [(''london-1704067200000'', t0) \<mapsto> marshall london_pending,
       (''london-1704067200000'', t1) \<mapsto> marshall london_enriched],
     queueA = [], queueB = [msgB], topic = [started_note, retrieved_note],
     trace = [Stored london_pending, SentA london_pending,
              Published ''City Processing Started'',
              Stored london_enriched, SentB london_enriched,
              Published ''Weather Data Retrieved'', DeletedA ''rh-1'']\<rparr>"

definition llm_no_key :: stage_env where
  "llm_no_key = calm_stage\<lparr>apiKey := None, status_time := t2, record_time := t2,
     note_time := t2\<rparr>"

definition topic_down :: stage_env where
  "topic_down = llm_no_key\<lparr>apiKey := Some ''sk-key'',
     note_res := Throws (Error ''topic unavailable''),
     fail_note_res := Throws (Error ''topic unavailable'')\<rparr>"

text \<open>Requests and a message that lack the city name, or everything.\<close>

definition post_null :: APIGatewayProxyEvent where
  "post_null = \<lparr>httpMethod = ''POST'', path = ''/cities'', ev_body = Some Null\<rparr>"

definition post_empty_name :: APIGatewayProxyEvent where
  "post_empty_name = \<lparr>httpMethod = ''POST'', path = ''/cities'',
     ev_body = Some (Parsed \<lparr>rq_cityName = Some [], rq_countryCode = Some ''GB''\<rparr>)\<rparr>"

definition poison :: SQSRecord where
  "poison = \<lparr>receiptHandle = ''rh-9'', body = Null\<rparr>"

definition poisoned :: world where
  "poisoned = after_intake\<lparr>queueA := [msgA, poison]\<rparr>"

section \<open>Verified properties\<close>

subsection \<open>Runs of the sample request\<close>

lemma london_id: "makeCityId ''London'' 1704067200000 = ''london-1704067200000''"
  by (simp add: makeCityId_def toLowerCase_def lowerChar_def isSpace_def decimal.simps
      digitChar_def)

lemma intake_london:
  "processCityRequest calm_intake (Some (Parsed london_request)) t0 empty_world =
     (createResponse 202 (AcceptedBody ''City processing started'' ''london-1704067200000''
        ''London'' Pending t0 ''/status/london-1704067200000''), after_intake)"
  by (simp add: processCityRequest_def calm_intake_def london_request_def london_id andThen_def
      putItem_def sendMessageA_def publish_def empty_world_def after_intake_def
      london_pending_def started_note_def msgA_def Let_def)

lemma post_london_run:
  "cityHandler calm_http post_london empty_world =
     (createResponse 202 (AcceptedBody ''City processing started'' ''london-1704067200000''
        ''London'' Pending t0 ''/status/london-1704067200000''), after_intake)"
  by (simp add: cityHandler_def calm_http_def post_london_def startsWith_def intake_london)

lemma get_london_run:
  "cityHandler calm_http get_london after_intake =
     (createResponse 404 (ErrorBody ''Not Found''
        ''No processing data found for city ID: london-1704067200000'' t1), after_intake)"
  by (simp add: cityHandler_def get_london_def calm_http_def startsWith_def
      getProcessingStatus_def getItem_def after_intake_def latest_def t0_def)

subsection \<open>The HTTP handler\<close>

text \<open>
  C1. A valid create request is answered with 202 and a job identifier, and a status
  query for that identifier, issued once the intake has written its record, should
  answer 200 with \<open>status = pending\<close> and the same city name. The code does not do this:
  the intake stores its record under the sort key \<^verbatim>\<open>timestamp\<close> of the request, the status
  query reads the sort key \<^verbatim>\<open>"latest"\<close>. For the request
  \<^verbatim>\<open>{"cityName":"London","countryCode":"GB"}\<close> the POST answers 202 with the identifier
  \<^verbatim>\<open>london-1704067200000\<close>, and the GET of \<^verbatim>\<open>/status/london-1704067200000\<close> that follows
  answers 404.
\<close>

theorem C1_status_after_intake_is_404:
  "fst (cityHandler calm_http post_london empty_world) =
     createResponse 202 (AcceptedBody ''City processing started'' ''london-1704067200000''
        ''London'' Pending t0 ''/status/london-1704067200000'') \<and>
   statusCode (fst (cityHandler calm_http get_london
      (snd (cityHandler calm_http post_london empty_world)))) = 404"
  by (simp add: post_london_run get_london_run createResponse_def)

lemma route_cities:
  "cityHandler env \<lparr>httpMethod = ''POST'', path = ''/cities'', ev_body = b\<rparr> w =
     processCityRequest (intake env) b (request_time env) w"
  by (simp add: cityHandler_def startsWith_def)

text \<open>
  C8, as the specification states it: every POST /cities whose body is missing
  \<^verbatim>\<open>cityName\<close> is answered with 400. The body \<^verbatim>\<open>null\<close> is valid JSON and has no
  \<^verbatim>\<open>cityName\<close>; the handler answers it with 500.
\<close>

theorem C8_counterexample:
  "statusCode (fst (cityHandler calm_http post_null empty_world)) = 500"
  by (simp add: post_null_def route_cities processCityRequest_def internalError_def
      createResponse_def)

text \<open>
  C8, amended. A POST /cities without a body, or whose body is a JSON value other than
  \<^verbatim>\<open>null\<close> in which \<^verbatim>\<open>cityName\<close> is missing or empty, is answered with 400 and leaves the
  world as it was: no record is written, nothing is enqueued, no notification is
  published. The body \<^verbatim>\<open>null\<close> leaves the world as it was too.
\<close>

theorem C8_missing_city_name:
  "((b = None \<or>
     (\<exists>rq. b = Some (Parsed rq) \<and> (rq_cityName rq = None \<or> rq_cityName rq = Some []))) \<longrightarrow>
      statusCode (fst (cityHandler env
         \<lparr>httpMethod = ''POST'', path = ''/cities'', ev_body = b\<rparr> w)) = 400 \<and>
      snd (cityHandler env \<lparr>httpMethod = ''POST'', path = ''/cities'', ev_body = b\<rparr> w) = w) \<and>
   snd (cityHandler env \<lparr>httpMethod = ''POST'', path = ''/cities'', ev_body = Some Null\<rparr> w) = w"
  by (auto simp: route_cities processCityRequest_def createResponse_def)

theorem C8_witness:
  "statusCode (fst (cityHandler calm_http post_empty_name after_intake)) = 400 \<and>
   snd (cityHandler calm_http post_empty_name after_intake) = after_intake \<and>
   snd (cityHandler calm_http post_null after_intake) = after_intake"
  using C8_missing_city_name
    [of "Some (Parsed \<lparr>rq_cityName = Some [], rq_countryCode = Some ''GB''\<rparr>)"
        calm_http after_intake]
  by (simp add: post_empty_name_def post_null_def)

text \<open>
  C10. A POST /cities whose body is present and is not valid JSON is answered with 500,
  not with 400, and leaves the world as it was.
\<close>

theorem C10_malformed_body_is_500:
  "processCityRequest env (Some Unparsable) ts w =
     (createResponse 500
        (ErrorBody ''Internal Server Error'' ''Failed to process city request'' ts), w)"
  by (simp add: processCityRequest_def internalError_def)

lemma getProcessingStatus_codes:
  "(statusCode (getProcessingStatus res now cid w) = 404 \<longleftrightarrow>
      res = Ok \<and> table w (cid, latest) = None) \<and>
   (statusCode (getProcessingStatus res now cid w) = 500 \<longleftrightarrow> (\<exists>e. res = Throws e)) \<and>
   (statusCode (getProcessingStatus res now cid w) = 200 \<longleftrightarrow>
      res = Ok \<and> table w (cid, latest) \<noteq> None)"
  by (cases res; cases "table w (cid, latest)")
     (simp_all add: getProcessingStatus_def getItem_def createResponse_def internalError_def)

lemma splitOn_plain: "c \<notin> set s \<Longrightarrow> splitOn c s = [s]"
  by (induction s) auto

lemma route_status:
  "CHR ''/'' \<notin> set cid \<Longrightarrow>
     cityHandler env \<lparr>httpMethod = ''GET'', path = ''/status/'' @ cid, ev_body = b\<rparr> w =
       (getProcessingStatus (get_res env) (status_now env) cid w, w)"
  by (simp add: cityHandler_def startsWith_def splitOn_plain)

text \<open>
  C9, as the specification states it: the status query answers 404 exactly when no
  record exists for the job. After the POST of the London request a record of the job
  exists, under the timestamp of the request, the lookup succeeds, and the query for the
  job answers 404: it reads the sort key \<^verbatim>\<open>"latest"\<close>.
\<close>

theorem C9_counterexample:
  "table (snd (cityHandler calm_http post_london empty_world))
      (''london-1704067200000'', t0) = Some (marshall london_pending) \<and>
   get_res calm_http = Ok \<and>
   statusCode (fst (cityHandler calm_http get_london
      (snd (cityHandler calm_http post_london empty_world)))) = 404"
proof -
  have "get_res calm_http = Ok"
    by (simp add: calm_http_def)
  moreover have "table after_intake (''london-1704067200000'', t0) =
      Some (marshall london_pending)"
    by (simp add: after_intake_def)
  ultimately show ?thesis
    by (simp add: post_london_run get_london_run createResponse_def)
qed

text \<open>
  C9, amended. For every job identifier, the status query answers 500 exactly when the
  store lookup itself throws, and answers 404 whenever the lookup succeeds and no record
  exists for the job; it answers 404 only after a successful lookup, and 200 only when a
  record exists for the job. Absence and storage failure are never conflated. GET
  /status/{jobId}, for an identifier of one path segment, is answered by that query and
  changes nothing. (What the query answers when a record exists is not part of this
  statement.)
\<close>

theorem C9_absence_and_store_failure:
  "statusCode (getProcessingStatus res now cid w) \<in> {200, 404, 500} \<and>
   (statusCode (getProcessingStatus res now cid w) = 500 \<longleftrightarrow> (\<exists>e. res = Throws e)) \<and>
   (statusCode (getProcessingStatus res now cid w) = 404 \<longrightarrow> res = Ok) \<and>
   (res = Ok \<and> (\<forall>ts. table w (cid, ts) = None) \<longrightarrow>
      statusCode (getProcessingStatus res now cid w) = 404) \<and>
   (statusCode (getProcessingStatus res now cid w) = 200 \<longrightarrow>
      (\<exists>ts. table w (cid, ts) \<noteq> None)) \<and>
   (CHR ''/'' \<notin> set cid \<longrightarrow>
      cityHandler env \<lparr>httpMethod = ''GET'', path = ''/status/'' @ cid, ev_body = b\<rparr> w =
        (getProcessingStatus (get_res env) (status_now env) cid w, w))"
proof -
  have r: "CHR ''/'' \<notin> set cid \<longrightarrow>
      cityHandler env \<lparr>httpMethod = ''GET'', path = ''/status/'' @ cid, ev_body = b\<rparr> w =
        (getProcessingStatus (get_res env) (status_now env) cid w, w)"
    using route_status by blast
  have c: "(statusCode (getProcessingStatus res now cid w) = 404 \<longleftrightarrow>
        res = Ok \<and> table w (cid, latest) = None) \<and>
     (statusCode (getProcessingStatus res now cid w) = 500 \<longleftrightarrow> (\<exists>e. res = Throws e)) \<and>
     (statusCode (getProcessingStatus res now cid w) = 200 \<longleftrightarrow>
        res = Ok \<and> table w (cid, latest) \<noteq> None)"
    by (rule getProcessingStatus_codes)
  have q: "statusCode (getProcessingStatus res now cid w) \<in> {200, 404, 500} \<and>
     (statusCode (getProcessingStatus res now cid w) = 500 \<longleftrightarrow> (\<exists>e. res = Throws e)) \<and>
     (statusCode (getProcessingStatus res now cid w) = 404 \<longrightarrow> res = Ok) \<and>
     (res = Ok \<and> (\<forall>ts. table w (cid, ts) = None) \<longrightarrow>
        statusCode (getProcessingStatus res now cid w) = 404) \<and>
     (statusCode (getProcessingStatus res now cid w) = 200 \<longrightarrow>
        (\<exists>ts. table w (cid, ts) \<noteq> None))"
    using c by (cases res; cases "table w (cid, latest)"; fastforce)
  from q r show ?thesis by blast
qed

theorem C9_witness:
  "get_res calm_http = Ok \<and>
   (\<forall>ts. table empty_world (''london-1704067200000'', ts) = None) \<and>
   CHR ''/'' \<notin> set ''london-1704067200000'' \<and>
   statusCode (fst (cityHandler calm_http get_london empty_world)) = 404"
proof -
  have g: "get_res calm_http = Ok"
    by (simp add: calm_http_def)
  have e: "\<forall>ts. table empty_world (''london-1704067200000'', ts) = None"
    by (simp add: empty_world_def)
  have h: "CHR ''/'' \<notin> set ''london-1704067200000''"
    by simp
  have p: "get_london = \<lparr>httpMethod = ''GET'', path = ''/status/'' @ ''london-1704067200000'',
      ev_body = None\<rparr>"
    by (simp add: get_london_def)
  from C9_absence_and_store_failure
    [of "get_res calm_http" "status_now calm_http" "''london-1704067200000''" empty_world
        calm_http None]
  have "statusCode (getProcessingStatus (get_res calm_http) (status_now calm_http)
          ''london-1704067200000'' empty_world) = 404 \<and>
        cityHandler calm_http get_london empty_world =
          (getProcessingStatus (get_res calm_http) (status_now calm_http)
             ''london-1704067200000'' empty_world, empty_world)"
    using g e h unfolding p by blast
  then show ?thesis using g e h by simp
qed

text \<open>
  C4, as the specification states it: when the store write and the enqueue succeed and
  the notification publish fails, the request is still answered with 202. It is not:
  the publish is awaited inside the same \<^verbatim>\<open>try\<close> block as the other two calls.
\<close>

theorem C4_counterexample:
  "statusCode (fst (processCityRequest
      (calm_intake\<lparr>publish_res := Throws (Error ''topic unavailable'')\<rparr>)
      (Some (Parsed london_request)) t0 empty_world)) \<noteq> 202"
  by (simp add: processCityRequest_def calm_intake_def london_request_def andThen_def
      putItem_def sendMessageA_def publish_def internalError_def createResponse_def Let_def)

text \<open>
  C4, amended: when the store write and the enqueue succeed and the notification publish
  fails, the request is answered with 500; the record has been written and the message
  has been enqueued, and no notification has been published.
\<close>

theorem C4_publish_failure_is_500:
  assumes "rq_cityName rq = Some name" and "name \<noteq> []"
    and "put_res env = Ok" and "send_res env = Ok" and "publish_res env = Throws e"
  shows "fst (processCityRequest env (Some (Parsed rq)) ts w) =
           createResponse 500
             (ErrorBody ''Internal Server Error'' ''Failed to process city request'' ts) \<and>
         table (snd (processCityRequest env (Some (Parsed rq)) ts w))
             (makeCityId name (date_now env), ts) \<noteq> None \<and>
         length (queueA (snd (processCityRequest env (Some (Parsed rq)) ts w))) =
             Suc (length (queueA w)) \<and>
         topic (snd (processCityRequest env (Some (Parsed rq)) ts w)) = topic w"
  using assms
  by (simp add: processCityRequest_def andThen_def putItem_def sendMessageA_def publish_def
      internalError_def Let_def)

theorem C4_witness:
  "fst (processCityRequest (calm_intake\<lparr>publish_res := Throws (Error ''topic unavailable'')\<rparr>)
          (Some (Parsed london_request)) t0 empty_world) =
     createResponse 500
       (ErrorBody ''Internal Server Error'' ''Failed to process city request'' t0) \<and>
   table (snd (processCityRequest
          (calm_intake\<lparr>publish_res := Throws (Error ''topic unavailable'')\<rparr>)
          (Some (Parsed london_request)) t0 empty_world))
       (''london-1704067200000'', t0) \<noteq> None"
  using C4_publish_failure_is_500
    [of london_request "''London''"
        "calm_intake\<lparr>publish_res := Throws (Error ''topic unavailable'')\<rparr>"
        "Error ''topic unavailable''" t0 empty_world]
  by (simp add: london_request_def calm_intake_def london_id)

subsection \<open>The enrichment stage\<close>

lemma updateProcessingStatus_swallowed [simp]:
  "updateProcessingStatus res now cid st err w = w"
  by (cases res)
     (simp_all add: updateProcessingStatus_def updateItem_def attributeName_def keySchema_def
        worldOf_def)


lemma weatherCatch_world:
  "worldOf (weatherCatch env record pd e w) =
     (let n = \<lparr>n_subject = ''Weather Processing Failed'',
               n_message = ''Weather processing failed'',
               n_cityId = cityId pd, n_cityName = cityName pd,
               n_weatherData = None, n_llmDescription = None,
               n_error = Some (errorMessage e), n_timestamp = fail_note_time env\<rparr>
      in case fail_note_res env of
           Throws x \<Rightarrow> w
         | Ok \<Rightarrow>
            (case fail_delete_res env of
               Throws x \<Rightarrow> w\<lparr>topic := topic w @ [n],
                              trace := trace w @ [Published ''Weather Processing Failed'']\<rparr>
             | Ok \<Rightarrow> w\<lparr>topic := topic w @ [n],
                        queueA := filter (\<lambda>r. receiptHandle r \<noteq> receiptHandle record) (queueA w),
                        trace := trace w @ [Published ''Weather Processing Failed'',
                                  DeletedA (receiptHandle record)]\<rparr>))"
  by (simp add: weatherCatch_def publish_def deleteMessageA_def andThen_def worldOf_def Let_def
      split: outcome.splits)






subsection \<open>Runs of the sample job through the enrichment stage\<close>

lemma calm_stage_fields [simp]:
  "status_res calm_stage = Ok" "status_time calm_stage = t1"
  "apiKey calm_stage = Some ''owm-key''" "provider calm_stage = (\<lambda>location k. Payload sunny)"
  "record_time calm_stage = t1" "store_res calm_stage = Ok" "forward_res calm_stage = Ok"
  "forward_handle calm_stage = ''rh-2''" "note_time calm_stage = t1"
  "note_res calm_stage = Ok" "delete_res calm_stage = Ok" "fail_status_res calm_stage = Ok"
  "fail_status_time calm_stage = t1" "fail_note_res calm_stage = Ok"
  "fail_note_time calm_stage = t1" "fail_delete_res calm_stage = Ok"
  by (simp_all add: calm_stage_def)

lemma times_not_latest [simp]: "t0 \<noteq> latest" "t1 \<noteq> latest" "t2 \<noteq> latest"
  by (simp_all add: t0_def t1_def t2_def latest_def)

lemma fetch_calm: "fetchWeatherData calm_stage ''London'' (Some ''GB'') = Inr sunny"
  by (simp add: fetchWeatherData_def)

lemma enrich_london:
  "processWeatherRecord calm_stage msgA after_intake = Inr after_enrichment"
  by (simp add: processWeatherRecord_def weatherTry_def msgA_def london_pending_def fetch_calm
      putItem_def sendMessageB_def publish_def deleteMessageA_def
      andThen_def Let_def after_intake_def after_enrichment_def
      london_enriched_def msgB_def retrieved_note_def latest_def t0_def t1_def)

lemma enrich_london_handler:
  "weatherHandler [(calm_stage, msgA)] after_intake = after_enrichment"
  by (simp add: enrich_london worldOf_def)

lemma reachable_after_intake: "reachable after_intake"
proof -
  have "request_time calm_http \<noteq> latest"
    by (simp add: calm_http_def)
  from reachable.request [OF reachable.start this, of post_london]
  show ?thesis by (simp add: post_london_run)
qed

lemma reachable_after_enrichment: "reachable after_enrichment"
proof -
  have "msgA \<in> set (queueA after_intake)"
    by (simp add: after_intake_def)
  moreover have "record_time calm_stage \<noteq> latest"
    by simp
  ultimately have "reachable (weatherHandler [(calm_stage, msgA)] after_intake)"
    using reachable_after_intake by (rule reachable.enrich [rotated])
  then show ?thesis by (simp only: enrich_london_handler)
qed

subsection \<open>Which messages stay in their queue\<close>

lemma weatherTry_ok:
  "weatherTryOk env pd \<Longrightarrow>
     \<exists>w'. weatherTry env r pd w = Inr w' \<and>
          queueA w' = filter (\<lambda>x. receiptHandle x \<noteq> receiptHandle r) (queueA w)"
  by (auto simp: weatherTryOk_def weatherTry_def putItem_def sendMessageB_def publish_def
      deleteMessageA_def andThen_def Let_def split: sum.splits)

lemma weatherTry_fail:
  "\<not> weatherTryOk env pd \<Longrightarrow>
     \<exists>e w'. weatherTry env r pd w = Inl (e, w') \<and> queueA w' = queueA w"
  by (auto simp: weatherTryOk_def weatherTry_def putItem_def sendMessageB_def publish_def
      deleteMessageA_def andThen_def Let_def split: sum.splits outcome.splits)

lemma weatherCatch_queueA:
  "queueA (worldOf (weatherCatch env r pd e w)) =
     (if fail_note_res env = Ok \<and> fail_delete_res env = Ok
      then filter (\<lambda>x. receiptHandle x \<noteq> receiptHandle r) (queueA w) else queueA w)"
  by (simp add: weatherCatch_world Let_def split: outcome.splits)

lemma llmCatch_queueB:
  "queueB (worldOf (llmCatch env r pd e w)) =
     (if fail_note_res env = Ok \<and> fail_delete_res env = Ok
      then filter (\<lambda>x. receiptHandle x \<noteq> receiptHandle r) (queueB w) else queueB w)"
  by (simp add: llmCatch_def publish_def deleteMessageB_def andThen_def worldOf_def Let_def
      split: outcome.splits)

lemma llmTry_ok:
  "llmTryOk env \<Longrightarrow>
     \<exists>w'. llmTry env r pd w = Inr w' \<and>
          queueB w' = filter (\<lambda>x. receiptHandle x \<noteq> receiptHandle r) (queueB w)"
  by (auto simp: llmTryOk_def llmTry_def generateWeatherDescription_def putItem_def
      publish_def deleteMessageB_def andThen_def Let_def)

lemma llmTry_fail:
  "\<not> llmTryOk env \<Longrightarrow> \<exists>e w'. llmTry env r pd w = Inl (e, w') \<and> queueB w' = queueB w"
  by (auto simp: llmTryOk_def llmTry_def generateWeatherDescription_def putItem_def
      publish_def deleteMessageB_def andThen_def Let_def split: outcome.splits)

lemma not_in_own_filter: "r \<notin> set (filter (\<lambda>x. receiptHandle x \<noteq> receiptHandle r) q)"
  by simp

lemma weather_undeleted:
  assumes "msg \<in> set (queueA w)"
  shows "msg \<in> set (queueA (worldOf (processWeatherRecord env msg w))) \<longleftrightarrow>
           body msg = Unparsable \<or> body msg = Null \<or>
           (\<exists>pd. body msg = Parsed pd \<and> \<not> weatherTryOk env pd \<and>
                 (fail_note_res env \<noteq> Ok \<or> fail_delete_res env \<noteq> Ok))"
proof (cases "body msg")
  case Unparsable
  then show ?thesis using assms by (simp add: processWeatherRecord_def worldOf_def)
next
  case Null
  then show ?thesis using assms by (simp add: processWeatherRecord_def worldOf_def)
next
  case (Parsed pd)
  show ?thesis
  proof (cases "weatherTryOk env pd")
    case True
    from weatherTry_ok [OF True, of msg w] obtain w' where
      "weatherTry env msg pd w = Inr w'"
      "queueA w' = filter (\<lambda>x. receiptHandle x \<noteq> receiptHandle msg) (queueA w)" by blast
    then show ?thesis using Parsed True
      by (simp add: processWeatherRecord_def worldOf_def)
  next
    case False
    from weatherTry_fail [OF False, of msg w] obtain e w' where
      "weatherTry env msg pd w = Inl (e, w')" "queueA w' = queueA w" by blast
    then show ?thesis using Parsed False assms
      by (simp add: processWeatherRecord_def weatherCatch_queueA)
  qed
qed

lemma llm_undeleted:
  assumes "msg \<in> set (queueB w)"
  shows "msg \<in> set (queueB (worldOf (processLLMRecord env msg w))) \<longleftrightarrow>
           body msg = Unparsable \<or> body msg = Null \<or>
           (\<exists>pd. body msg = Parsed pd \<and> \<not> llmTryOk env \<and>
                 (fail_note_res env \<noteq> Ok \<or> fail_delete_res env \<noteq> Ok))"
proof (cases "body msg")
  case Unparsable
  then show ?thesis using assms by (simp add: processLLMRecord_def worldOf_def)
next
  case Null
  then show ?thesis using assms by (simp add: processLLMRecord_def worldOf_def)
next
  case (Parsed pd)
  show ?thesis
  proof (cases "llmTryOk env")
    case True
    from llmTry_ok [OF True, of msg pd w] obtain w' where
      "llmTry env msg pd w = Inr w'"
      "queueB w' = filter (\<lambda>x. receiptHandle x \<noteq> receiptHandle msg) (queueB w)" by blast
    then show ?thesis using Parsed True
      by (simp add: processLLMRecord_def worldOf_def)
  next
    case False
    from llmTry_fail [OF False, of msg pd w] obtain e w' where
      "llmTry env msg pd w = Inl (e, w')" "queueB w' = queueB w" by blast
    then show ?thesis using Parsed False assms
      by (simp add: processLLMRecord_def llmCatch_queueB)
  qed
qed

text \<open>
  C6, as the specification states it: the input message of an enrichment or description
  invocation is left undeleted exactly when the JSON decoding of its body throws. It is
  left undeleted in other cases too. Here the body of the Queue B message decodes, the
  topic is out of order, the publish of the completion notification throws, the publish
  of the failure notification throws as well, and the message stays in Queue B.
\<close>

theorem C6_counterexample:
  "body msgB = Parsed london_enriched \<and>
   msgB \<in> set (queueB (worldOf (processLLMRecord topic_down msgB after_enrichment)))"
  by (simp add: llm_undeleted after_enrichment_def msgB_def llmTryOk_def topic_down_def
      llm_no_key_def calm_stage_def)

text \<open>
  C6, amended. For every enrichment or description invocation whose message body fails
  to decode, decodes to \<^verbatim>\<open>null\<close> or decodes to a job record, the input message is left
  undeleted exactly when the JSON decoding of its body throws, or the body decodes to
  \<^verbatim>\<open>null\<close> (the property reads of the \<^verbatim>\<open>try\<close> block and of the \<^verbatim>\<open>catch\<close> block then throw
  before any call), or some call of the stage throws after a successful decode and the
  publish of the failure notification or the delete call of the \<^verbatim>\<open>catch\<close> block throws as
  well. Every other failure after a successful decode ends with the message deleted.
\<close>

theorem C6_undeleted_exactly_when:
  "(msg \<in> set (queueA w) \<longrightarrow>
      (msg \<in> set (queueA (worldOf (processWeatherRecord env msg w))) \<longleftrightarrow>
         body msg = Unparsable \<or> body msg = Null \<or>
         (\<exists>pd. body msg = Parsed pd \<and> \<not> weatherTryOk env pd \<and>
               (fail_note_res env \<noteq> Ok \<or> fail_delete_res env \<noteq> Ok)))) \<and>
   (msg \<in> set (queueB w) \<longrightarrow>
      (msg \<in> set (queueB (worldOf (processLLMRecord env msg w))) \<longleftrightarrow>
         body msg = Unparsable \<or> body msg = Null \<or>
         (\<exists>pd. body msg = Parsed pd \<and> \<not> llmTryOk env \<and>
               (fail_note_res env \<noteq> Ok \<or> fail_delete_res env \<noteq> Ok))))"
  using weather_undeleted [of msg w env] llm_undeleted [of msg w env] by blast

theorem C6_witness:
  "msgA \<in> set (queueA after_intake) \<and>
   msgA \<notin> set (queueA (worldOf (processWeatherRecord city_unknown msgA after_intake))) \<and>
   msgB \<in> set (queueB after_enrichment) \<and>
   msgB \<notin> set (queueB (worldOf (processLLMRecord llm_no_key msgB after_enrichment))) \<and>
   poison \<in> set (queueA poisoned) \<and>
   poison \<in> set (queueA (worldOf (processWeatherRecord calm_stage poison poisoned)))"
  using C6_undeleted_exactly_when [of msgA after_intake city_unknown]
    C6_undeleted_exactly_when [of msgB after_enrichment llm_no_key]
    C6_undeleted_exactly_when [of poison poisoned calm_stage]
  by (simp add: after_intake_def after_enrichment_def msgA_def msgB_def llmTryOk_def
      llm_no_key_def city_unknown_def calm_stage_def poison_def poisoned_def)

subsection \<open>The description stage\<close>

text \<open>
  C3. The description stage should produce the description by calling the
  text-generation provider with the enriched weather payload, and should raise a
  configuration failure when the generation credential is absent. The code does neither:
  \<^verbatim>\<open>generateWeatherDescription\<close> returns a fixed text in its first statement. With
  \<^verbatim>\<open>OPENAI_API_KEY\<close> unset, the Queue B message of the London job is processed to the end:
  the record is stored as \<open>completed\<close> with the text \<^verbatim>\<open>Fake description for London\<close>, and
  the message is deleted.
\<close>

theorem C3_description_without_credential:
  "apiKey llm_no_key = None \<and>
   generateWeatherDescription llm_no_key london_enriched =
     Inr (''Fake description for London'' @ [CHR 0x0A]) \<and>
   table (worldOf (processLLMRecord llm_no_key msgB after_enrichment))
       (''london-1704067200000'', t2) =
     Some (marshall (london_enriched\<lparr>status := Completed,
        llmDescription := Some (''Fake description for London'' @ [CHR 0x0A]),
        timestamp := t2\<rparr>)) \<and>
   queueB (worldOf (processLLMRecord llm_no_key msgB after_enrichment)) = []"
  by (simp add: processLLMRecord_def llmTry_def generateWeatherDescription_def msgB_def
      london_enriched_def london_pending_def putItem_def
      publish_def deleteMessageB_def andThen_def worldOf_def Let_def llm_no_key_def
      calm_stage_def after_enrichment_def)

subsection \<open>Weather data and status in the reachable worlds\<close>

lemma inv_andThen:
  assumes "weatherInv (worldOf m)" and "\<And>w'. weatherInv w' \<Longrightarrow> weatherInv (worldOf (f w'))"
  shows "weatherInv (worldOf (andThen m f))"
  using assms by (cases m) (auto simp: andThen_def worldOf_def)

lemma snd_respond:
  "snd (case m of Inl (e, w') \<Rightarrow> (a, w') | Inr w3 \<Rightarrow> (b, w3)) = worldOf m"
  by (simp add: worldOf_def split: sum.splits prod.splits)

lemma tableInv_put:
  "tableInv w \<Longrightarrow> itemRule ts it \<Longrightarrow> table w' = (table w)((cid, ts) \<mapsto> it) \<Longrightarrow> tableInv w'"
  by (simp add: tableInv_def)

lemma tableInv_same: "tableInv w \<Longrightarrow> table w' = table w \<Longrightarrow> tableInv w'"
  by (simp add: tableInv_def)

lemma queueInv_subset: "queueInv w \<Longrightarrow> set (queueB w') \<subseteq> set (queueB w) \<Longrightarrow> queueInv w'"
  by (auto simp: queueInv_def)

lemma inv_putItem:
  assumes "weatherInv w" and "timestamp d \<noteq> latest"
    and "weatherData d \<noteq> None \<longleftrightarrow> status d = WeatherProcessing \<or> status d = Completed"
  shows "weatherInv (worldOf (putItem res d w))"
proof (cases res)
  case Ok
  have "itemRule (timestamp d) (marshall d)"
    using assms(2,3) by (simp add: itemRule_def marshall_def)
  with assms(1) Ok show ?thesis
    by (auto simp: weatherInv_def putItem_def worldOf_def intro: tableInv_put queueInv_subset)
next
  case (Throws e)
  with assms(1) show ?thesis by (simp add: putItem_def worldOf_def)
qed

lemma inv_sendMessageA: "weatherInv w \<Longrightarrow> weatherInv (worldOf (sendMessageA res h d w))"
  by (cases res)
     (auto simp: weatherInv_def sendMessageA_def worldOf_def
           intro: tableInv_same queueInv_subset)

lemma inv_sendMessageB:
  "weatherInv w \<Longrightarrow> weatherData d \<noteq> None \<Longrightarrow> weatherInv (worldOf (sendMessageB res h d w))"
  by (cases res)
     (auto simp: weatherInv_def sendMessageB_def worldOf_def queueInv_def
           intro: tableInv_same)

lemma inv_publish: "weatherInv w \<Longrightarrow> weatherInv (worldOf (publish res n w))"
  by (cases res)
     (auto simp: weatherInv_def publish_def worldOf_def intro: tableInv_same queueInv_subset)

lemma inv_deleteMessageA: "weatherInv w \<Longrightarrow> weatherInv (worldOf (deleteMessageA res h w))"
  by (cases res)
     (auto simp: weatherInv_def deleteMessageA_def worldOf_def
           intro: tableInv_same queueInv_subset)

lemma inv_deleteMessageB: "weatherInv w \<Longrightarrow> weatherInv (worldOf (deleteMessageB res h w))"
  by (cases res)
     (auto simp: weatherInv_def deleteMessageB_def worldOf_def
           intro: tableInv_same queueInv_subset)

lemma inv_update:
  "weatherInv w \<Longrightarrow> weatherInv (updateProcessingStatus res now cid st err w)"
  by simp

lemma inv_processCityRequest:
  assumes "weatherInv w" and "ts \<noteq> latest"
  shows "weatherInv (snd (processCityRequest env b ts w))"
proof -
  have "weatherInv (worldOf (andThen (putItem (put_res env) d w) (\<lambda>w1.
          andThen (sendMessageA (send_res env) (send_handle env) d w1) (\<lambda>w2.
          publish (publish_res env) n w2))))"
    if "timestamp d = ts" and "weatherData d = None" and "status d = Pending" for d n
    using that assms
    by (intro inv_andThen inv_putItem inv_sendMessageA inv_publish) simp_all
  then show ?thesis
    using assms(1)
    by (simp add: processCityRequest_def snd_respond Let_def
        split: option.splits json_text.splits)
qed

lemma inv_cityHandler:
  assumes "weatherInv w" and "request_time env \<noteq> latest"
  shows "weatherInv (snd (cityHandler env event w))"
  using assms
  by (simp add: cityHandler_def inv_processCityRequest split: list.splits)

lemma inv_weatherCatch:
  "weatherInv w \<Longrightarrow> weatherInv (worldOf (weatherCatch env r pd e w))"
  unfolding weatherCatch_def Let_def
  by (intro inv_andThen inv_publish inv_deleteMessageA inv_update) simp_all

lemma inv_llmCatch:
  "weatherInv w \<Longrightarrow> weatherInv (worldOf (llmCatch env r pd e w))"
  unfolding llmCatch_def Let_def
  by (intro inv_andThen inv_publish inv_deleteMessageB inv_update) simp_all

lemma inv_weatherTry:
  assumes "weatherInv w" and "record_time env \<noteq> latest"
  shows "weatherInv (worldOf (weatherTry env r pd w))"
proof (cases "fetchWeatherData env (cityName pd) (countryCode pd)")
  case (Inl e)
  then show ?thesis
    using assms(1) by (simp add: weatherTry_def worldOf_def inv_update)
next
  case (Inr wd)
  have "weatherInv (updateProcessingStatus (status_res env) (status_time env) (cityId pd)
          WeatherProcessing None w)"
    using assms(1) by (simp add: inv_update)
  then show ?thesis
    using Inr assms(2)
    unfolding weatherTry_def Let_def
    by (simp, intro inv_andThen inv_putItem inv_sendMessageB inv_publish
        inv_deleteMessageA) simp_all
qed

lemma inv_llmTry:
  assumes "weatherInv w" and "record_time env \<noteq> latest" and "weatherData pd \<noteq> None"
  shows "weatherInv (worldOf (llmTry env r pd w))"
proof -
  have "weatherInv (updateProcessingStatus (status_res env) (status_time env) (cityId pd)
          LlmProcessing None w)"
    using assms(1) by (simp add: inv_update)
  then show ?thesis
    using assms(2,3)
    unfolding llmTry_def Let_def generateWeatherDescription_def
    by (simp, intro inv_andThen inv_putItem inv_publish inv_deleteMessageB) simp_all
qed

lemma inv_processWeatherRecord:
  assumes "weatherInv w" and "record_time env \<noteq> latest"
  shows "weatherInv (worldOf (processWeatherRecord env r w))"
proof (cases "body r")
  case Unparsable
  then show ?thesis using assms(1) by (simp add: processWeatherRecord_def worldOf_def)
next
  case Null
  then show ?thesis using assms(1) by (simp add: processWeatherRecord_def worldOf_def)
next
  case (Parsed pd)
  show ?thesis
  proof (cases "weatherTry env r pd w")
    case (Inl x)
    obtain e w' where x: "x = (e, w')" by (cases x)
    have "weatherInv w'"
      using inv_weatherTry [OF assms, of r pd] Inl x by (simp add: worldOf_def)
    then show ?thesis
      using Parsed Inl x by (simp add: processWeatherRecord_def inv_weatherCatch)
  next
    case (Inr w')
    then show ?thesis
      using inv_weatherTry [OF assms, of r pd] Parsed
      by (simp add: processWeatherRecord_def worldOf_def)
  qed
qed

lemma inv_processLLMRecord:
  assumes "weatherInv w" and "record_time env \<noteq> latest" and "r \<in> set (queueB w)"
  shows "weatherInv (worldOf (processLLMRecord env r w))"
proof (cases "body r")
  case Unparsable
  then show ?thesis using assms(1) by (simp add: processLLMRecord_def worldOf_def)
next
  case Null
  then show ?thesis using assms(1) by (simp add: processLLMRecord_def worldOf_def)
next
  case (Parsed pd)
  have wd: "weatherData pd \<noteq> None"
    using assms(1,3) Parsed by (auto simp: weatherInv_def queueInv_def)
  show ?thesis
  proof (cases "llmTry env r pd w")
    case (Inl x)
    obtain e w' where x: "x = (e, w')" by (cases x)
    have "weatherInv w'"
      using inv_llmTry [OF assms(1,2) wd, of r] Inl x by (simp add: worldOf_def)
    then show ?thesis
      using Parsed Inl x by (simp add: processLLMRecord_def inv_llmCatch)
  next
    case (Inr w')
    then show ?thesis
      using inv_llmTry [OF assms(1,2) wd, of r] Parsed
      by (simp add: processLLMRecord_def worldOf_def)
  qed
qed

lemma inv_empty_world: "weatherInv empty_world"
  by (simp add: weatherInv_def tableInv_def queueInv_def empty_world_def)

lemma reachable_weatherInv: "reachable w \<Longrightarrow> weatherInv w"
proof (induction rule: reachable.induct)
  case start
  show ?case by (rule inv_empty_world)
next
  case (request w env event)
  then show ?case by (simp add: inv_cityHandler)
next
  case (enrich w r env)
  then show ?case by (simp add: inv_processWeatherRecord)
next
  case (describe w r env)
  then show ?case by (simp add: inv_processLLMRecord)
qed

text \<open>
  No reachable world holds an item under the sort key \<^verbatim>\<open>"latest"\<close>, so no status query in
  a reachable world answers 200: the record of the intake is never the record the query
  reads.
\<close>

lemma no_item_under_latest:
  assumes "reachable w"
  shows "table w (cid, latest) = None"
proof (cases "table w (cid, latest)")
  case None
  then show ?thesis .
next
  case (Some it)
  have "tableInv w"
    using reachable_weatherInv [OF assms] by (simp add: weatherInv_def)
  with Some have "itemRule latest it"
    unfolding tableInv_def by blast
  then show ?thesis by (simp add: itemRule_def)
qed

lemma status_query_never_200:
  "reachable w \<Longrightarrow> statusCode (getProcessingStatus res now cid w) \<noteq> 200"
  by (cases res)
     (simp_all add: getProcessingStatus_def getItem_def no_item_under_latest createResponse_def
        internalError_def)

text \<open>
  C2, as the specification states it: a stored record carries weather data if and only if
  its status is describing, completed or failed-after-describing, and no record with the
  in-progress status of the enrichment stage carries it. The record that the enrichment
  stage itself writes refutes this: after the calm enrichment of the London job the store
  holds, under \<^verbatim>\<open>(london-1704067200000, 2024-01-01T00:00:05.000Z)\<close>, a record with status
  \<^verbatim>\<open>weather_processing\<close> and the weather data.
\<close>

theorem C2_counterexample:
  "reachable after_enrichment \<and>
   table after_enrichment (''london-1704067200000'', t1) = Some (marshall london_enriched) \<and>
   i_status (marshall london_enriched) = Some WeatherProcessing \<and>
   i_weatherData (marshall london_enriched) = Some sunny"
  using reachable_after_enrichment
  by (simp add: after_enrichment_def marshall_def london_enriched_def)

text \<open>
  C2, amended. In every reachable state of the record store, a job record that a stage
  has put carries weather data if and only if its status is \<^verbatim>\<open>weather_processing\<close> (the
  in-progress status of the enrichment stage, which that stage writes together with the
  weather data) or \<^verbatim>\<open>completed\<close>. (The record that the status updates address is not part
  of this statement; the table of the model holds the records the stages have put.)
\<close>

theorem C2_weather_data_and_status:
  assumes "reachable w" and "table w (cid, ts) = Some it"
  shows "i_weatherData it \<noteq> None \<longleftrightarrow>
           i_status it = Some WeatherProcessing \<or> i_status it = Some Completed"
proof -
  have "tableInv w"
    using reachable_weatherInv [OF assms(1)] by (simp add: weatherInv_def)
  with assms(2) have "itemRule ts it"
    unfolding tableInv_def by blast
  then show ?thesis
    by (simp add: itemRule_def)
qed

theorem C2_witness:
  "reachable after_enrichment \<and>
   table after_enrichment (''london-1704067200000'', t1) = Some (marshall london_enriched) \<and>
   (i_weatherData (marshall london_enriched) \<noteq> None) =
     (i_status (marshall london_enriched) = Some WeatherProcessing \<or>
      i_status (marshall london_enriched) = Some Completed)"
proof -
  have r: "reachable after_enrichment"
    by (rule reachable_after_enrichment)
  have t: "table after_enrichment (''london-1704067200000'', t1) =
      Some (marshall london_enriched)"
    by (simp add: after_enrichment_def)
  show ?thesis
    using C2_weather_data_and_status [OF r t] r t by simp
qed

subsection \<open>Persistence before hand-over\<close>

lemma storedFirst_no_send: "\<forall>e \<in> set es. \<not> isSend e \<Longrightarrow> storedFirst seen es"
  by (induction seen es rule: storedFirst.induct) auto

lemma storedFirst_append_no_send:
  "\<forall>e \<in> set ys. \<not> isSend e \<Longrightarrow> storedFirst seen (xs @ ys) = storedFirst seen xs"
  by (induction seen xs rule: storedFirst.induct) (auto simp: storedFirst_no_send)

lemma intake_effects:
  fixes env :: intake_env and rq :: CityRequest and ts name :: string and w :: world
  assumes "rq_cityName rq = Some name" and "name \<noteq> []"
  defines "d \<equiv> \<lparr>cityId = makeCityId name (date_now env), cityName = name,
                 countryCode = rq_countryCode rq, status = Pending, timestamp = ts,
                 weatherData = None, llmDescription = None, error = None\<rparr>"
  defines "w' \<equiv> snd (processCityRequest env (Some (Parsed rq)) ts w)"
  shows "trace w' = trace w @
           (if put_res env = Ok
            then Stored d #
              (if send_res env = Ok
               then SentA d #
                 (if publish_res env = Ok then [Published ''City Processing Started'']
                  else [])
               else [])
            else [])"
    and "queueA w' = queueA w @
           (if put_res env = Ok \<and> send_res env = Ok
            then [\<lparr>receiptHandle = send_handle env, body = Parsed d\<rparr>] else [])"
    and "table w' = (if put_res env = Ok
                     then (table w)((cityId d, timestamp d) \<mapsto> marshall d) else table w)"
  unfolding d_def w'_def using assms(1,2)
  by (cases "put_res env"; cases "send_res env"; cases "publish_res env";
      simp add: processCityRequest_def andThen_def putItem_def sendMessageA_def publish_def
        Let_def)+


lemma intake_order:
  "\<exists>evs. trace (snd (processCityRequest env b ts w)) = trace w @ evs \<and> storedFirst [] evs"
proof (cases b)
  case None
  then show ?thesis by (simp add: processCityRequest_def)
next
  case (Some jt)
  show ?thesis
  proof (cases jt)
    case Unparsable
    with Some show ?thesis by (simp add: processCityRequest_def)
  next
    case Null
    with Some show ?thesis by (simp add: processCityRequest_def)
  next
    case (Parsed rq)
    show ?thesis
    proof (cases "rq_cityName rq")
      case None
      with Some Parsed show ?thesis by (simp add: processCityRequest_def)
    next
      case (Some name)
      show ?thesis
      proof (cases "name = []")
        case True
        with \<open>b = Some jt\<close> Parsed Some show ?thesis by (simp add: processCityRequest_def)
      next
        case False
        from intake_effects(1) [OF Some False, of env ts w] \<open>b = Some jt\<close> Parsed
        show ?thesis by simp
      qed
    qed
  qed
qed

lemma intake_enqueued_is_stored:
  assumes "m \<in> set (queueA (snd (processCityRequest env b ts w)))" and "m \<notin> set (queueA w)"
  shows "\<exists>d. body m = Parsed d \<and>
             table (snd (processCityRequest env b ts w)) (cityId d, timestamp d) =
               Some (marshall d)"
proof (cases b)
  case None
  then show ?thesis using assms by (simp add: processCityRequest_def)
next
  case (Some jt)
  show ?thesis
  proof (cases jt)
    case Unparsable
    with Some show ?thesis using assms by (simp add: processCityRequest_def)
  next
    case Null
    with Some show ?thesis using assms by (simp add: processCityRequest_def)
  next
    case (Parsed rq)
    show ?thesis
    proof (cases "rq_cityName rq")
      case None
      with Some Parsed show ?thesis using assms by (simp add: processCityRequest_def)
    next
      case (Some name)
      show ?thesis
      proof (cases "name = []")
        case True
        with \<open>b = Some jt\<close> Parsed Some show ?thesis
          using assms by (simp add: processCityRequest_def)
      next
        case False
        from intake_effects(2,3) [OF Some False, of env ts w] \<open>b = Some jt\<close> Parsed assms
        show ?thesis by (auto split: if_splits)
      qed
    qed
  qed
qed


lemma weatherTry_fetch_fails:
  "fetchWeatherData env (cityName pd) (countryCode pd) = Inl e \<Longrightarrow>
     weatherTry env r pd w = Inl (e, w)"
  by (simp add: weatherTry_def)

lemma weatherTry_effects:
  fixes env :: stage_env and r :: SQSRecord and pd :: ProcessingData and w :: world
  assumes "fetchWeatherData env (cityName pd) (countryCode pd) = Inr wd"
  defines "d \<equiv> pd\<lparr>status := WeatherProcessing, weatherData := Some wd,
                    timestamp := record_time env\<rparr>"
  defines "wt \<equiv> worldOf (weatherTry env r pd w)"
  shows "trace wt = trace w @
           (if store_res env = Ok
            then Stored d #
              (if forward_res env = Ok
               then SentB d #
                 (if note_res env = Ok
                  then Published ''Weather Data Retrieved'' #
                    (if delete_res env = Ok then [DeletedA (receiptHandle r)] else [])
                  else [])
               else [])
            else [])"
    and "queueB wt = queueB w @
           (if store_res env = Ok \<and> forward_res env = Ok
            then [\<lparr>receiptHandle = forward_handle env, body = Parsed d\<rparr>] else [])"
    and "table wt = (if store_res env = Ok
                     then (table w)((cityId pd, record_time env) \<mapsto> marshall d)
                     else table w)"
  unfolding d_def wt_def using assms(1)
  by (cases "store_res env"; cases "forward_res env"; cases "note_res env";
      cases "delete_res env";
      simp add: weatherTry_def andThen_def putItem_def sendMessageB_def publish_def
        deleteMessageA_def worldOf_def Let_def)+

lemma weatherCatch_effects:
  "\<exists>evs. trace (worldOf (weatherCatch env r pd e w)) = trace w @ evs \<and>
         (\<forall>x \<in> set evs. \<not> isSend x)"
  "queueB (worldOf (weatherCatch env r pd e w)) = queueB w"
  "table (worldOf (weatherCatch env r pd e w)) = table w"
  by (simp_all add: weatherCatch_world Let_def split: outcome.splits)


lemma weather_world:
  "body r = Parsed pd \<Longrightarrow>
     worldOf (processWeatherRecord env r w) =
       (case weatherTry env r pd w of
          Inr w' \<Rightarrow> w'
        | Inl (e, w') \<Rightarrow> worldOf (weatherCatch env r pd e w'))"
  by (simp add: processWeatherRecord_def worldOf_def split: sum.splits prod.splits)

lemma weatherTry_order:
  "\<exists>evs. trace (worldOf (weatherTry env r pd w)) = trace w @ evs \<and> storedFirst [] evs"
proof (cases "fetchWeatherData env (cityName pd) (countryCode pd)")
  case (Inl e)
  then show ?thesis
    by (simp add: weatherTry_fetch_fails worldOf_def)
next
  case (Inr wd)
  from weatherTry_effects(1) [OF Inr, of r w] show ?thesis
    by simp
qed

lemma weather_world_cases:
  assumes "body r = Parsed pd"
  shows "worldOf (processWeatherRecord env r w) = worldOf (weatherTry env r pd w) \<or>
         (\<exists>e. worldOf (processWeatherRecord env r w) =
                worldOf (weatherCatch env r pd e (worldOf (weatherTry env r pd w))))"
proof (cases "weatherTry env r pd w")
  case (Inr w')
  then have "worldOf (weatherTry env r pd w) = w'" by (simp add: worldOf_def)
  then show ?thesis using assms Inr by (simp add: weather_world)
next
  case (Inl x)
  obtain e w' where x: "x = (e, w')" by (cases x)
  then have "worldOf (weatherTry env r pd w) = w'" using Inl by (simp add: worldOf_def)
  then show ?thesis using assms Inl x by (auto simp: weather_world)
qed

lemma weather_order:
  "\<exists>evs. trace (worldOf (processWeatherRecord env r w)) = trace w @ evs \<and>
         storedFirst [] evs"
proof (cases "body r")
  case Unparsable
  then show ?thesis by (simp add: processWeatherRecord_def worldOf_def)
next
  case Null
  then show ?thesis by (simp add: processWeatherRecord_def worldOf_def)
next
  case (Parsed pd)
  let ?wt = "worldOf (weatherTry env r pd w)"
  obtain tevs where t: "trace ?wt = trace w @ tevs" "storedFirst [] tevs"
    using weatherTry_order by blast
  from weather_world_cases [OF Parsed, of env w] show ?thesis
  proof
    assume "worldOf (processWeatherRecord env r w) = ?wt"
    with t show ?thesis by simp
  next
    assume "\<exists>e. worldOf (processWeatherRecord env r w) =
                worldOf (weatherCatch env r pd e ?wt)"
    then obtain e where e: "worldOf (processWeatherRecord env r w) =
        worldOf (weatherCatch env r pd e ?wt)" by blast
    obtain cevs where c: "trace (worldOf (weatherCatch env r pd e ?wt)) = trace ?wt @ cevs"
      "\<forall>x \<in> set cevs. \<not> isSend x"
      using weatherCatch_effects(1) by blast
    from e c t show ?thesis
      by (simp add: storedFirst_append_no_send)
  qed
qed

lemma weather_enqueued_is_stored:
  assumes "record_time env \<noteq> latest"
    and "m \<in> set (queueB (worldOf (processWeatherRecord env r w)))"
    and "m \<notin> set (queueB w)"
  shows "\<exists>d. body m = Parsed d \<and>
             table (worldOf (processWeatherRecord env r w)) (cityId d, timestamp d) =
               Some (marshall d)"
proof (cases "body r")
  case Unparsable
  then show ?thesis using assms by (simp add: processWeatherRecord_def worldOf_def)
next
  case Null
  then show ?thesis using assms by (simp add: processWeatherRecord_def worldOf_def)
next
  case (Parsed pd)
  let ?wt = "worldOf (weatherTry env r pd w)"
  have final: "queueB (worldOf (processWeatherRecord env r w)) = queueB ?wt \<and>
      table (worldOf (processWeatherRecord env r w)) (cityId pd, record_time env) =
        table ?wt (cityId pd, record_time env)"
    using weather_world_cases [OF Parsed, of env w] assms(1)
    by (auto simp: weatherCatch_effects)
  show ?thesis
  proof (cases "fetchWeatherData env (cityName pd) (countryCode pd)")
    case (Inl e)
    then have "queueB ?wt = queueB w"
      by (simp add: weatherTry_fetch_fails worldOf_def)
    with final assms(2,3) show ?thesis by simp
  next
    case (Inr wd)
    let ?d = "pd\<lparr>status := WeatherProcessing, weatherData := Some wd,
                  timestamp := record_time env\<rparr>"
    from weatherTry_effects(2,3) [OF Inr, of r w] final assms(2,3)
    have "body m = Parsed ?d \<and>
          table (worldOf (processWeatherRecord env r w)) (cityId ?d, timestamp ?d) =
            Some (marshall ?d)"
      by (auto split: if_splits)
    then show ?thesis by blast
  qed
qed

text \<open>
  C7, as the specification states it: each stage enqueues the next stage's work item only
  after its own persistence has succeeded, so that a consumer never receives a job that
  is not yet visible to status queries. The order holds (see below); the visibility does
  not. After the intake of the London request the message of the job is in Queue A, and
  the status query for the job answers 404, because it reads the sort key \<^verbatim>\<open>"latest"\<close>
  and the intake wrote under the request's timestamp.
\<close>

theorem C7_counterexample:
  "msgA \<in> set (queueA (snd (cityHandler calm_http post_london empty_world))) \<and>
   body msgA = Parsed london_pending \<and>
   cityId london_pending = ''london-1704067200000'' \<and>
   statusCode (getProcessingStatus Ok t1 ''london-1704067200000''
      (snd (cityHandler calm_http post_london empty_world))) = 404"
  by (simp add: post_london_run after_intake_def msgA_def london_pending_def
      getProcessingStatus_def getItem_def createResponse_def latest_def t0_def)

text \<open>
  C7, amended. In every stage execution, the next stage's work item is enqueued only
  after that stage's own put has succeeded: among the effects of an intake execution and
  of an enrichment execution, every hand-over of a job record to a queue comes after the
  put of the same record, and every message the execution adds to Queue A (intake) or
  Queue B (enrichment) carries a job whose record is in the store under the key
  \<^verbatim>\<open>(cityId, timestamp)\<close> of that job. (What a status query sees of it is not part of
  this statement.)
\<close>

theorem C7_persistence_precedes_enqueue:
  "(\<exists>evs. trace (snd (processCityRequest env b ts w)) = trace w @ evs \<and>
          storedFirst [] evs) \<and>
   (\<forall>m \<in> set (queueA (snd (processCityRequest env b ts w))) - set (queueA w).
      \<exists>d. body m = Parsed d \<and>
          table (snd (processCityRequest env b ts w)) (cityId d, timestamp d) =
            Some (marshall d)) \<and>
   (\<exists>evs. trace (worldOf (processWeatherRecord senv msg v)) = trace v @ evs \<and>
          storedFirst [] evs) \<and>
   (record_time senv \<noteq> latest \<longrightarrow>
      (\<forall>m \<in> set (queueB (worldOf (processWeatherRecord senv msg v))) - set (queueB v).
         \<exists>d. body m = Parsed d \<and>
             table (worldOf (processWeatherRecord senv msg v)) (cityId d, timestamp d) =
               Some (marshall d)))"
  using intake_order [of env b ts w] weather_order [of senv msg v]
    intake_enqueued_is_stored [of _ env b ts w]
    weather_enqueued_is_stored [of senv _ msg v]
  by blast

theorem C7_witness:
  "storedFirst [] [Stored london_pending, SentA london_pending,
      Published ''City Processing Started''] \<and>
   msgA \<in> set (queueA after_intake) - set (queueA empty_world) \<and>
   table after_intake (cityId london_pending, timestamp london_pending) =
     Some (marshall london_pending) \<and>
   record_time calm_stage \<noteq> latest \<and>
   msgB \<in> set (queueB after_enrichment) - set (queueB after_intake) \<and>
   table after_enrichment (cityId london_enriched, timestamp london_enriched) =
     Some (marshall london_enriched)"
  using C7_persistence_precedes_enqueue
    [of calm_intake "Some (Parsed london_request)" t0 empty_world calm_stage msgA after_intake]
  by (simp add: intake_london enrich_london worldOf_def)
     (simp add: after_intake_def after_enrichment_def empty_world_def msgA_def msgB_def
        london_pending_def london_enriched_def)

end
